theory Spec2Isabelle
  imports Complex_Main "HOL-Library.Multiset"
begin

section \<open>JavaScript values used by the front end\<close>

text \<open>
  A JavaScript \<open>number\<close> that results from a division can be a finite value, one of the
  two infinities, or NaN. Finite values are kept as exact rationals: rounding of doubles
  and the sign of zero are not modelled. The numbers that arrive in a JSON response
  (counts, totals, page sizes) are finite and are kept as \<open>int\<close>, and so is the page
  index; integers of a magnitude of \<open>2^53\<close> and more, which a double no longer tells
  apart, are beyond the data in question.
\<close>

datatype jsnum = Fin rat | PosInf | NegInf | NaN

text \<open>The operator \<open>/\<close>.\<close>

fun js_div :: "jsnum \<Rightarrow> jsnum \<Rightarrow> jsnum" where
  "js_div (Fin a) (Fin b) =
     (if b \<noteq> 0 then Fin (a / b)
      else if a = 0 then NaN
      else if 0 < a then PosInf else NegInf)"
| "js_div (Fin a) PosInf = Fin 0"
| "js_div (Fin a) NegInf = Fin 0"
| "js_div PosInf (Fin b) = (if 0 \<le> b then PosInf else NegInf)"
| "js_div NegInf (Fin b) = (if 0 \<le> b then NegInf else PosInf)"
| "js_div _ _ = NaN"

text \<open>The operator \<open>*\<close>.\<close>

fun js_mul :: "jsnum \<Rightarrow> jsnum \<Rightarrow> jsnum" where
  "js_mul (Fin a) (Fin b) = Fin (a * b)"
| "js_mul NaN _ = NaN"
| "js_mul _ NaN = NaN"
| "js_mul (Fin a) PosInf = (if a = 0 then NaN else if 0 < a then PosInf else NegInf)"
| "js_mul (Fin a) NegInf = (if a = 0 then NaN else if 0 < a then NegInf else PosInf)"
| "js_mul PosInf (Fin b) = (if b = 0 then NaN else if 0 < b then PosInf else NegInf)"
| "js_mul NegInf (Fin b) = (if b = 0 then NaN else if 0 < b then NegInf else PosInf)"
| "js_mul PosInf PosInf = PosInf"
| "js_mul NegInf NegInf = PosInf"
| "js_mul PosInf NegInf = NegInf"
| "js_mul NegInf PosInf = NegInf"

text \<open>The operator \<open>-\<close> (binary).\<close>

fun js_sub :: "jsnum \<Rightarrow> jsnum \<Rightarrow> jsnum" where
  "js_sub (Fin a) (Fin b) = Fin (a - b)"
| "js_sub NaN _ = NaN"
| "js_sub _ NaN = NaN"
| "js_sub PosInf PosInf = NaN"
| "js_sub NegInf NegInf = NaN"
| "js_sub PosInf _ = PosInf"
| "js_sub NegInf _ = NegInf"
| "js_sub (Fin a) PosInf = NegInf"
| "js_sub (Fin a) NegInf = PosInf"

text \<open>The operator \<open><\<close>: every comparison with NaN is false.\<close>

fun js_lt :: "jsnum \<Rightarrow> jsnum \<Rightarrow> bool" where
  "js_lt (Fin a) (Fin b) = (a < b)"
| "js_lt NaN _ = False"
| "js_lt _ NaN = False"
| "js_lt _ NegInf = False"
| "js_lt PosInf _ = False"
| "js_lt NegInf _ = True"
| "js_lt (Fin a) PosInf = True"

text \<open>\<open>Math.ceil\<close>.\<close>

fun js_ceil :: "jsnum \<Rightarrow> jsnum" where
  "js_ceil (Fin a) = Fin (of_int \<lceil>a\<rceil>)"
| "js_ceil x = x"

definition num :: "int \<Rightarrow> jsnum" where
  "num i = Fin (of_int i)"

subsection \<open>Printing numbers\<close>

text \<open>
  \<open>Number.prototype.toFixed(1)\<close>: NaN and the infinities print as their names. The
  digits printed for a finite value depend on the rounding of the double that the
  runtime has computed, which is not modelled here: they are given by a parameter, the
  runtime's printer as a function of the exact value.
\<close>

fun toFixed1 :: "(rat \<Rightarrow> string) \<Rightarrow> jsnum \<Rightarrow> string" where
  "toFixed1 fmt NaN = ''NaN''"
| "toFixed1 fmt PosInf = ''Infinity''"
| "toFixed1 fmt NegInf = ''-Infinity''"
| "toFixed1 fmt (Fin x) = fmt x"

text \<open>
  A printer for the examples: the exact value rounded to the nearest tenth (away from
  zero on a tie), in plain decimals. It stands in for the runtime's printer there and
  is not claimed to agree with it on every value.
\<close>

definition digit_char :: "nat \<Rightarrow> char" where
  "digit_char d = ''0123456789'' ! (d mod 10)"

function show_nat :: "nat \<Rightarrow> string" where
  "show_nat n = (if n < 10 then [digit_char n] else show_nat (n div 10) @ [digit_char n])"
  by pat_completeness auto
termination
  by (relation "measure id") auto

definition tenths_abs :: "rat \<Rightarrow> string" where
  "tenths_abs x =
     (let n = nat \<lfloor>x * 10 + 1 / 2\<rfloor>
      in show_nat (n div 10) @ ''.'' @ [digit_char n])"

definition exact_tenths :: "rat \<Rightarrow> string" where
  "exact_tenths x = (if x < 0 then ''-'' @ tenths_abs (- x) else tenths_abs x)"

text \<open>\<open>s.replace(/_/g, " ")\<close>: every underscore becomes a space.\<close>

definition replace_underscores :: "string \<Rightarrow> string" where
  "replace_underscores s = map (\<lambda>c. if c = CHR ''_'' then CHR '' '' else c) s"

section \<open>The HTTP client (api/client)\<close>

text \<open>
  The client is an axios instance with a base URL. A request is recorded as a value: its
  method, its URL and its query parameters in the order in which the properties were
  set. The source only ever calls \<open>client.get\<close>; the other methods of axios are listed
  so that a request can be told to be a read.
\<close>

datatype http_method = GET | POST | PUT | PATCH | DELETE

datatype param = PNum int | PStr string

record request =
  req_method :: http_method
  req_url :: string
  req_params :: "(string \<times> param) list"

definition baseURL :: string where
  "baseURL = ''http://localhost:3001/api''"

definition client_get :: "string \<Rightarrow> (string \<times> param) list \<Rightarrow> request" where
  "client_get path ps = \<lparr>req_method = GET, req_url = baseURL @ path, req_params = ps\<rparr>"

section \<open>The jobs API (api/jobs.ts)\<close>

record Job =
  job_id :: string
  job_name :: string
  job_type :: string
  status :: string
  start_time :: string
  end_time :: string
  duration_seconds :: rat
  num_stages :: rat
  num_tasks :: rat
  num_executors :: rat
  input_size_mb :: rat
  output_size_mb :: rat
  memory_per_executor_mb :: rat
  total_memory_mb :: rat
  cpu_cores_per_executor :: rat
  shuffle_read_mb :: rat
  shuffle_write_mb :: rat
  gc_time_ms :: rat
  duration_formatted :: string

text \<open>The property names of the interface \<open>Job\<close>, in the order of its declaration.\<close>

definition Job_fields :: "string list" where
  "Job_fields =
     [''job_id'', ''job_name'', ''job_type'', ''status'', ''start_time'', ''end_time'',
      ''duration_seconds'', ''num_stages'', ''num_tasks'', ''num_executors'',
      ''input_size_mb'', ''output_size_mb'', ''memory_per_executor_mb'',
      ''total_memory_mb'', ''cpu_cores_per_executor'', ''shuffle_read_mb'',
      ''shuffle_write_mb'', ''gc_time_ms'', ''duration_formatted'']"

record Pagination =
  total :: int
  limit :: int
  offset :: int

record JobsResponse =
  jobs :: "Job list"
  pagination :: Pagination

text \<open>
  \<open>UseJobsParams\<close>: the two optional properties are \<open>None\<close> when they are undefined.
\<close>

record UseJobsParams =
  p_limit :: int
  p_offset :: int
  p_status :: "string option"
  p_job_type :: "string option"

text \<open>
  The test \<open>status && status !== "ALL"\<close>: a string is truthy when it is defined and not
  empty.
\<close>

definition passes_filter :: "string option \<Rightarrow> bool" where
  "passes_filter v = (case v of None \<Rightarrow> False | Some s \<Rightarrow> s \<noteq> [] \<and> s \<noteq> ''ALL'')"

text \<open>The object \<open>params\<close> that the query function of \<open>useJobs\<close> builds.\<close>

definition useJobs_params :: "UseJobsParams \<Rightarrow> (string \<times> param) list" where
  "useJobs_params a =
     (let params = [(''limit'', PNum (p_limit a)), (''offset'', PNum (p_offset a))];
          params = (case p_status a of
                      Some s \<Rightarrow> if passes_filter (Some s)
                                then params @ [(''status'', PStr s)] else params
                    | None \<Rightarrow> params);
          params = (case p_job_type a of
                      Some t \<Rightarrow> if passes_filter (Some t)
                                then params @ [(''job_type'', PStr t)] else params
                    | None \<Rightarrow> params)
      in params)"

definition useJobs_request :: "UseJobsParams \<Rightarrow> request" where
  "useJobs_request a = client_get ''/jobs'' (useJobs_params a)"

definition useJobTypes_request :: request where
  "useJobTypes_request = client_get ''/job-types'' []"

section \<open>The statistics API (api/stats)\<close>

record Overview =
  total_jobs :: int
  completed_jobs :: int
  failed_jobs :: int
  running_jobs :: int
  success_rate :: rat

record Performance =
  avg_duration_seconds :: rat
  avg_duration_formatted :: string
  total_data_processed_mb :: rat
  total_data_processed_gb :: rat

record RecentActivity =
  jobs_last_24h :: int
  failures_last_24h :: int

record ErrorTotals =
  total_errors :: int
  total_warnings :: int

text \<open>
  \<open>job_types\<close> is a \<open>Record<string, number>\<close>: an association list in the order of
  \<open>Object.entries\<close>. The Dashboard guards it with \<open>|| {}\<close>, so an absent value is
  \<open>None\<close>.
\<close>

record StatsResponse =
  overview :: Overview
  performance :: Performance
  job_types :: "(string \<times> int) list option"
  recent_activity :: RecentActivity
  errors :: ErrorTotals
  last_updated :: string

definition useStats_request :: request where
  "useStats_request = client_get ''/stats'' []"

section \<open>The Dashboard (components/Dashboard)\<close>

record JobTypeRow =
  jt_type :: string
  jt_count :: int
  jt_percent :: string

definition jobTypeEntries :: "StatsResponse \<Rightarrow> (string \<times> int) list" where
  "jobTypeEntries stats = (case job_types stats of None \<Rightarrow> [] | Some m \<Rightarrow> m)"

definition totalJobs :: "StatsResponse \<Rightarrow> int" where
  "totalJobs stats = total_jobs (overview stats)"

text \<open>The percentage before it is printed: \<open>(count / totalJobs) * 100\<close>.\<close>

definition percent_of :: "int \<Rightarrow> int \<Rightarrow> jsnum" where
  "percent_of c t = js_mul (js_div (num c) (num t)) (num 100)"

definition jobTypeRow :: "(rat \<Rightarrow> string) \<Rightarrow> int \<Rightarrow> string \<times> int \<Rightarrow> JobTypeRow" where
  "jobTypeRow fmt t e =
     \<lparr>jt_type = replace_underscores (fst e),
      jt_count = snd e,
      jt_percent = toFixed1 fmt (percent_of (snd e) t)\<rparr>"

text \<open>
  The rows are the entries mapped in their order. \<open>Array.prototype.sort\<close> is stable;
  with the comparator \<open>b.count - a.count\<close> it orders the rows by descending count,
  which is the stable insertion sort on the negated count. \<open>slice(0, 5)\<close> keeps the
  first five.
\<close>

definition jobTypeRows :: "(rat \<Rightarrow> string) \<Rightarrow> StatsResponse \<Rightarrow> JobTypeRow list" where
  "jobTypeRows fmt stats = map (jobTypeRow fmt (totalJobs stats)) (jobTypeEntries stats)"

definition sortedJobTypes :: "(rat \<Rightarrow> string) \<Rightarrow> StatsResponse \<Rightarrow> JobTypeRow list" where
  "sortedJobTypes fmt stats = sort_key (\<lambda>r. - jt_count r) (jobTypeRows fmt stats)"

definition topJobTypes :: "(rat \<Rightarrow> string) \<Rightarrow> StatsResponse \<Rightarrow> JobTypeRow list" where
  "topJobTypes fmt stats = take 5 (sortedJobTypes fmt stats)"

text \<open>The bars of the status chart, in the order of the source: name, value, fill.\<close>

definition statusData :: "StatsResponse \<Rightarrow> (string \<times> int \<times> string) list" where
  "statusData stats =
     [(''Completed'', completed_jobs (overview stats), ''#85929E''),
      (''Running'', running_jobs (overview stats), ''#F7DC6F''),
      (''Failed'', failed_jobs (overview stats), ''#F1948A'')]"

section \<open>The Jobs view (components/Jobs)\<close>

text \<open>
  The four \<open>useState\<close> cells of the component, together with what the two query hooks
  currently hand to it: \<open>jobsData\<close> from \<open>useJobs\<close> and the job types from
  \<open>useJobTypes\<close>, each \<open>None\<close> while undefined. \<open>useJobs\<close> keys its query on its whole
  argument (\<open>queryKey: ["jobs", { limit, offset, status, job_type }]\<close>), and the query
  library keeps the answers by key: \<open>jobsCache\<close> holds them, the latest first, and
  \<open>jobsRequested\<close> the keys for which a request has been sent.
\<close>

record JobsView =
  jobStatusFilter :: string
  jobTypeFilter :: string
  jobPage :: int
  jobPageSize :: int
  jobsData :: "JobsResponse option"
  jobsCache :: "(UseJobsParams \<times> JobsResponse) list"
  jobsRequested :: "UseJobsParams list"
  jobTypesData :: "string list option"

text \<open>The first render: nothing is cached, and the request for the first key is sent.\<close>

definition initial_view :: JobsView where
  "initial_view =
     \<lparr>jobStatusFilter = ''ALL'', jobTypeFilter = ''ALL'', jobPage = 0, jobPageSize = 20,
      jobsData = None, jobsCache = [],
      jobsRequested = [\<lparr>p_limit = 20, p_offset = 0, p_status = Some ''ALL'',
                        p_job_type = Some ''ALL''\<rparr>],
      jobTypesData = None\<rparr>"

text \<open>The argument the component passes to \<open>useJobs\<close>.\<close>

definition Jobs_query :: "JobsView \<Rightarrow> UseJobsParams" where
  "Jobs_query v =
     \<lparr>p_limit = jobPageSize v,
      p_offset = jobPage v * jobPageSize v,
      p_status = Some (jobStatusFilter v),
      p_job_type = Some (jobTypeFilter v)\<rparr>"

text \<open>\<open>jobsData?.pagination?.total || 0\<close>\<close>

definition jobsTotal :: "JobsView \<Rightarrow> int" where
  "jobsTotal v = (case jobsData v of None \<Rightarrow> 0 | Some d \<Rightarrow> total (pagination d))"

definition totalPages :: "JobsView \<Rightarrow> jsnum" where
  "totalPages v = js_ceil (js_div (num (jobsTotal v)) (num (jobPageSize v)))"

definition canPrev :: "JobsView \<Rightarrow> bool" where
  "canPrev v = (0 < jobPage v)"

definition canNext :: "JobsView \<Rightarrow> bool" where
  "canNext v = js_lt (num (jobPage v)) (js_sub (totalPages v) (num 1))"

definition statusOptions :: "string list" where
  "statusOptions = [''ALL'', ''COMPLETED'', ''FAILED'', ''RUNNING'']"

definition jobTypeOptions :: "JobsView \<Rightarrow> string list" where
  "jobTypeOptions v = ''ALL'' # (case jobTypesData v of None \<Rightarrow> [] | Some ts \<Rightarrow> ts)"

definition pageSizeOptions :: "int list" where
  "pageSizeOptions = [10, 20, 50, 100]"

datatype icon = CheckCircle | XCircle | PlayCircle | Info

text \<open>\<open>statusIcon\<close>: the icon and its class name.\<close>

definition statusIcon :: "string \<Rightarrow> icon \<times> string" where
  "statusIcon s =
     (if s = ''COMPLETED'' then (CheckCircle, ''w-4 h-4 text-green-600'')
      else if s = ''FAILED'' then (XCircle, ''w-4 h-4 text-red-600'')
      else if s = ''RUNNING'' then (PlayCircle, ''w-4 h-4 text-yellow-600'')
      else (Info, ''w-4 h-4 text-gray-400''))"

definition statusColor :: "string \<Rightarrow> string" where
  "statusColor s =
     (if s = ''COMPLETED'' then ''text-green-700''
      else if s = ''FAILED'' then ''text-red-700''
      else if s = ''RUNNING'' then ''text-yellow-700''
      else ''text-gray-700'')"

text \<open>
  The events of the controls. A \<open>select\<close> delivers the value of one of its options (for
  the page size, \<open>Number\<close> of it); the two buttons deliver a click.
\<close>

datatype event =
  StatusChange string
| JobTypeChange string
| PageSizeChange int
| PrevClick
| NextClick

text \<open>
  The handlers, as written in the \<open>onChange\<close> and \<open>onClick\<close> properties: they set the
  cells.
\<close>

fun set_cells :: "event \<Rightarrow> JobsView \<Rightarrow> JobsView" where
  "set_cells (StatusChange x) v = v\<lparr>jobStatusFilter := x, jobPage := 0\<rparr>"
| "set_cells (JobTypeChange x) v = v\<lparr>jobTypeFilter := x, jobPage := 0\<rparr>"
| "set_cells (PageSizeChange n) v = v\<lparr>jobPageSize := n, jobPage := 0\<rparr>"
| "set_cells PrevClick v = v\<lparr>jobPage := jobPage v - 1\<rparr>"
| "set_cells NextClick v = v\<lparr>jobPage := jobPage v + 1\<rparr>"

text \<open>
  The render that follows: \<open>useJobs\<close> runs with the key of the new cells. When the
  answer for that key is in the cache, the hook hands it over in this same render;
  otherwise the data shown so far stays (\<open>placeholderData: keepPreviousData\<close>). In
  both cases a request for the key goes out.
\<close>

definition useJobs_render :: "JobsView \<Rightarrow> JobsView" where
  "useJobs_render v =
     (let k = Jobs_query v
      in v\<lparr>jobsData := (case map_of (jobsCache v) k of Some d \<Rightarrow> Some d | None \<Rightarrow> jobsData v),
           jobsRequested := k # jobsRequested v\<rparr>)"

text \<open>An event of the controls: its handler, then the render.\<close>

definition handle :: "event \<Rightarrow> JobsView \<Rightarrow> JobsView" where
  "handle e v = useJobs_render (set_cells e v)"

text \<open>
  Which events the rendered controls can deliver: a \<open>select\<close> only one of its options, a
  button only while it is not \<open>disabled\<close>. The two buttons are also hidden while the
  first request is loading; then \<open>jobsData\<close> is undefined, the total is 0 and the page
  index is 0, so that both are disabled as well.
\<close>

fun offered :: "event \<Rightarrow> JobsView \<Rightarrow> bool" where
  "offered (StatusChange x) v = (x \<in> set statusOptions)"
| "offered (JobTypeChange x) v = (x \<in> set (jobTypeOptions v))"
| "offered (PageSizeChange n) v = (n \<in> set pageSizeOptions)"
| "offered PrevClick v = canPrev v"
| "offered NextClick v = canNext v"

text \<open>
  The API server is not part of the front end: it is a parameter, one function that
  answers a jobs request from its query parameters and one list of job types.
\<close>

record server =
  srv_jobs :: "(string \<times> param) list \<Rightarrow> JobsResponse"
  srv_job_types :: "string list"

text \<open>
  The answer to the request for a key arrives: it enters the cache, and when the key is
  the one of the current cells the hook hands the answer over.
\<close>

definition jobs_answer :: "server \<Rightarrow> UseJobsParams \<Rightarrow> JobsView \<Rightarrow> JobsView" where
  "jobs_answer srv k v =
     (let d = srv_jobs srv (useJobs_params k)
      in v\<lparr>jobsCache := (k, d) # jobsCache v,
           jobsData := (if k = Jobs_query v then Some d else jobsData v)\<rparr>)"

text \<open>
  The states the view can reach: by the events of the controls, by the arrival of the
  answer for a key that has been requested (the current one or an earlier one), and by
  the arrival of the job types. The error branch of the component renders no controls
  and is left out.
\<close>

inductive reachable :: "server \<Rightarrow> JobsView \<Rightarrow> bool" for srv :: server where
  start: "reachable srv initial_view"
| control: "reachable srv v \<Longrightarrow> offered e v \<Longrightarrow> reachable srv (handle e v)"
| jobs_arrive:
    "reachable srv v \<Longrightarrow> k \<in> set (jobsRequested v) \<Longrightarrow> reachable srv (jobs_answer srv k v)"
| job_types_arrive:
    "reachable srv v \<Longrightarrow> reachable srv (v\<lparr>jobTypesData := Some (srv_job_types srv)\<rparr>)"

text \<open>The bound on the page index: not negative, and below the number of pages or zero.\<close>

definition page_in_range :: "JobsView \<Rightarrow> bool" where
  "page_in_range v = (0 \<le> jobPage v \<and> (js_lt (num (jobPage v)) (totalPages v) \<or> jobPage v = 0))"

text \<open>
  A server for examples: 100 jobs in all, 10 of them FAILED. It reports the number of
  jobs that match the status parameter and echoes the limit and the offset of the
  request; the rows themselves play no part in paging and are left empty.
\<close>

definition param_num :: "(string \<times> param) list \<Rightarrow> string \<Rightarrow> int" where
  "param_num ps k = (case map_of ps k of Some (PNum n) \<Rightarrow> n | _ \<Rightarrow> 0)"

definition example_server :: server where
  "example_server =
     \<lparr>srv_jobs = (\<lambda>ps. \<lparr>jobs = [],
                          pagination = \<lparr>total = (if map_of ps ''status'' = Some (PStr ''FAILED'')
                                                 then 10 else 100),
                                        limit = param_num ps ''limit'',
                                        offset = param_num ps ''offset''\<rparr>\<rparr>),
      srv_job_types = [''ETL'', ''ML_TRAINING'']\<rparr>"

section \<open>The navigation bar (components/Nav)\<close>

text \<open>
  What the refresh button can touch: the requests sent so far, and the state of the
  statistics query (its data and whether a fetch is under way).
\<close>

record NavWorld =
  sent :: "request list"
  stats_data :: "StatsResponse option"
  isFetching :: bool

text \<open>\<open>refetch\<close> of the statistics query runs its query function: one \<open>client.get\<close>.\<close>

definition refetch :: "NavWorld \<Rightarrow> NavWorld" where
  "refetch w = w\<lparr>sent := sent w @ [useStats_request], isFetching := True\<rparr>"

text \<open>The button: \<open>onClick={() => refetch()}\<close>, \<open>disabled={isFetching}\<close>.\<close>

definition refresh_click :: "NavWorld \<Rightarrow> NavWorld" where
  "refresh_click w = (if isFetching w then w else refetch w)"

section \<open>Example inputs\<close>

text \<open>The view once the first answer of the example server has arrived.\<close>

definition loaded_view :: JobsView where
  "loaded_view = jobs_answer example_server (Jobs_query initial_view) initial_view"

text \<open>
  The view after the status filter was then set to FAILED and Next was clicked while
  the list for all statuses was still shown.
\<close>

definition filtered_view :: JobsView where
  "filtered_view = handle NextClick (handle (StatusChange ''FAILED'') loaded_view)"

text \<open>The view after the answer for the second page of the FAILED jobs arrived.\<close>

definition stale_view :: JobsView where
  "stale_view = jobs_answer example_server (Jobs_query filtered_view) filtered_view"

text \<open>A statistics response with six job types.\<close>

definition example_stats :: StatsResponse where
  "example_stats =
     \<lparr>overview = \<lparr>total_jobs = 21, completed_jobs = 20, failed_jobs = 1, running_jobs = 0,
                   success_rate = 95\<rparr>,
      performance = \<lparr>avg_duration_seconds = 60, avg_duration_formatted = ''1m 0s'',
                      total_data_processed_mb = 2048, total_data_processed_gb = 2\<rparr>,
      job_types = Some [(''ETL'', 3), (''ML_TRAINING'', 6), (''ANALYTICS'', 1),
                        (''STREAMING'', 6), (''REPORTING'', 2), (''DATA_QUALITY'', 3)],
      recent_activity = \<lparr>jobs_last_24h = 0, failures_last_24h = 0\<rparr>,
      errors = \<lparr>total_errors = 1, total_warnings = 0\<rparr>,
      last_updated = ''2025-01-01T00:00:00''\<rparr>"

text \<open>A statistics response for an empty corpus that still lists a job type.\<close>

definition empty_corpus_stats :: StatsResponse where
  "empty_corpus_stats =
     \<lparr>overview = \<lparr>total_jobs = 0, completed_jobs = 0, failed_jobs = 0, running_jobs = 0,
                   success_rate = 0\<rparr>,
      performance = \<lparr>avg_duration_seconds = 0, avg_duration_formatted = ''0s'',
                      total_data_processed_mb = 0, total_data_processed_gb = 0\<rparr>,
      job_types = Some [(''ETL'', 0)],
      recent_activity = \<lparr>jobs_last_24h = 0, failures_last_24h = 0\<rparr>,
      errors = \<lparr>total_errors = 0, total_warnings = 0\<rparr>,
      last_updated = ''2025-01-01T00:00:00''\<rparr>"

section \<open>The Job attributes of the data model\<close>

text \<open>
  Modelled from the spec: the column list of the persisted Jobs table is written by
  \<open>spark_data_generator.py\<close>, which is not among the sources. The data model names the
  Job attributes in words: unique identifier, human-readable name, category reference,
  status, start timestamp, end timestamp, duration in seconds, executor count,
  per-executor memory and CPU, total memory, input and output data size, shuffle read and
  write volume, garbage-collection time.
\<close>

datatype job_attribute =
  Identifier | Name | Category | Status | StartTimestamp | EndTimestamp | DurationSeconds
| ExecutorCount | MemoryPerExecutor | CpuPerExecutor | TotalMemory | InputSize | OutputSize
| ShuffleRead | ShuffleWrite | GcTime

definition data_model_job_attributes :: "job_attribute list" where
  "data_model_job_attributes =
     [Identifier, Name, Category, Status, StartTimestamp, EndTimestamp, DurationSeconds,
      ExecutorCount, MemoryPerExecutor, CpuPerExecutor, TotalMemory, InputSize, OutputSize,
      ShuffleRead, ShuffleWrite, GcTime]"

text \<open>
  Which attribute of the data model a property of the consumer's \<open>Job\<close> carries, read off
  its name and unit; \<open>None\<close> for a property that no listed attribute describes.
\<close>

definition attribute_of_field :: "string \<Rightarrow> job_attribute option" where
  "attribute_of_field f =
     map_of
       [(''job_id'', Identifier), (''job_name'', Name), (''job_type'', Category),
        (''status'', Status), (''start_time'', StartTimestamp), (''end_time'', EndTimestamp),
        (''duration_seconds'', DurationSeconds), (''num_executors'', ExecutorCount),
        (''memory_per_executor_mb'', MemoryPerExecutor),
        (''cpu_cores_per_executor'', CpuPerExecutor), (''total_memory_mb'', TotalMemory),
        (''input_size_mb'', InputSize), (''output_size_mb'', OutputSize),
        (''shuffle_read_mb'', ShuffleRead), (''shuffle_write_mb'', ShuffleWrite),
        (''gc_time_ms'', GcTime)] f"

section \<open>The generator\<close>

text \<open>
  Modelled from the spec: the Operator Synthesizer of \<open>spark_data_generator.py\<close>, which
  is not among the sources. A job is COMPLETED or FAILED; an operator is COMPLETED,
  FAILED or SKIPPED. The synthesizer walks the stage list of the job's category in order
  and gives the stages the positions \<open>0..n-1\<close>. For a FAILED job it takes a failure point
  among the stage positions, marks that operator FAILED, every later one SKIPPED (with
  zero duration and zero records processed) and every earlier one COMPLETED; for a
  COMPLETED job every operator is COMPLETED. Each operator depends on its immediate
  predecessor, the first on none. The failure point and the drawn durations and record
  counts are arguments; timestamps and resource metrics are left out.
\<close>

datatype job_status = JobCompleted | JobFailed

datatype operator_status = OpCompleted | OpFailed | OpSkipped

record Operator =
  op_sequence :: nat
  op_name :: string
  op_status :: operator_status
  op_duration :: rat
  op_records :: nat
  op_depends_on :: "nat option"

definition operator_status_at :: "job_status \<Rightarrow> nat \<Rightarrow> nat \<Rightarrow> operator_status" where
  "operator_status_at js fp i =
     (case js of
        JobCompleted \<Rightarrow> OpCompleted
      | JobFailed \<Rightarrow> if i = fp then OpFailed else if fp < i then OpSkipped else OpCompleted)"

definition synthesize_operator ::
  "job_status \<Rightarrow> nat \<Rightarrow> (nat \<Rightarrow> rat) \<Rightarrow> (nat \<Rightarrow> nat) \<Rightarrow> nat \<Rightarrow> string \<Rightarrow> Operator" where
  "synthesize_operator js fp dur recs i name =
     (let st = operator_status_at js fp i
      in \<lparr>op_sequence = i,
          op_name = name,
          op_status = st,
          op_duration = (if st = OpSkipped then 0 else dur i),
          op_records = (if st = OpSkipped then 0 else recs i),
          op_depends_on = (if i = 0 then None else Some (i - 1))\<rparr>)"

definition synthesize_operators ::
  "job_status \<Rightarrow> string list \<Rightarrow> nat \<Rightarrow> (nat \<Rightarrow> rat) \<Rightarrow> (nat \<Rightarrow> nat) \<Rightarrow> Operator list" where
  "synthesize_operators js stages fp dur recs =
     map (\<lambda>i. synthesize_operator js fp dur recs i (stages ! i)) [0..<length stages]"

text \<open>
  Modelled from the spec: the Aggregator of \<open>spark_data_generator.py\<close>, which is not
  among the sources. It is a full pass over the jobs: the total count, the counts by
  status, and the success rate, completed over total, defined as 0 when the total is 0.
  Of a job only the identifier, the category and the status are kept; the category
  breakdown, durations, data volumes and error totals of the summary are left out.
\<close>

record GeneratedJob =
  gj_id :: string
  gj_category :: string
  gj_status :: job_status

record SummaryStats =
  s_total_jobs :: nat
  s_completed_jobs :: nat
  s_failed_jobs :: nat
  s_success_rate :: rat

definition aggregate :: "GeneratedJob list \<Rightarrow> SummaryStats" where
  "aggregate js =
     (let n = length js;
          completed = length (filter (\<lambda>j. gj_status j = JobCompleted) js);
          failed = length (filter (\<lambda>j. gj_status j = JobFailed) js)
      in \<lparr>s_total_jobs = n,
          s_completed_jobs = completed,
          s_failed_jobs = failed,
          s_success_rate = (if n = 0 then 0 else of_nat completed / of_nat n)\<rparr>)"

text \<open>
  Modelled from the spec: the status draw of the Job Synthesizer of
  \<open>spark_data_generator.py\<close>, which is not among the sources. The status is drawn with
  the failure probability of the category: the job is FAILED only if the failure draw
  succeeded, and COMPLETED otherwise. The outcome of the draw is an argument. The status
  column of the Jobs table holds the name of the status.
\<close>

definition synthesize_job :: "string \<Rightarrow> string \<Rightarrow> bool \<Rightarrow> GeneratedJob" where
  "synthesize_job jid category failure_draw =
     \<lparr>gj_id = jid,
      gj_category = category,
      gj_status = (if failure_draw then JobFailed else JobCompleted)\<rparr>"

fun status_name :: "job_status \<Rightarrow> string" where
  "status_name JobCompleted = ''COMPLETED''"
| "status_name JobFailed = ''FAILED''"

section \<open>Request parameters of the jobs query\<close>

lemma useJobs_params_keys: "distinct (map fst (useJobs_params a))"
  by (auto simp: useJobs_params_def passes_filter_def Let_def split: option.splits)

text \<open>
  C8: whenever the Jobs view calls the jobs query hook, the request is a GET of
  \<open>/jobs\<close> whose parameter \<open>limit\<close> is the selected page size and whose parameter
  \<open>offset\<close> is the page index times the page size; the parameter \<open>status\<close> is present
  exactly when the status filter is set (a non-empty string) and different from "ALL",
  and then it is the filter value itself; the same holds for \<open>job_type\<close> and the job-type
  filter. No parameter name occurs twice.
\<close>

theorem useJobs_request_parameters:
  "map_of (useJobs_params (Jobs_query v)) ''limit'' = Some (PNum (jobPageSize v)) \<and>
   map_of (useJobs_params (Jobs_query v)) ''offset'' = Some (PNum (jobPage v * jobPageSize v)) \<and>
   map_of (useJobs_params (Jobs_query v)) ''status'' =
     (if jobStatusFilter v \<noteq> [] \<and> jobStatusFilter v \<noteq> ''ALL''
      then Some (PStr (jobStatusFilter v)) else None) \<and>
   map_of (useJobs_params (Jobs_query v)) ''job_type'' =
     (if jobTypeFilter v \<noteq> [] \<and> jobTypeFilter v \<noteq> ''ALL''
      then Some (PStr (jobTypeFilter v)) else None) \<and>
   distinct (map fst (useJobs_params (Jobs_query v))) \<and>
   req_method (useJobs_request (Jobs_query v)) = GET \<and>
   req_url (useJobs_request (Jobs_query v)) = baseURL @ ''/jobs'' \<and>
   req_params (useJobs_request (Jobs_query v)) = useJobs_params (Jobs_query v)"
  by (simp add: useJobs_params_def Jobs_query_def passes_filter_def Let_def
      useJobs_request_def client_get_def)

section \<open>The top job types of the Dashboard\<close>

lemma sort_key_descending:
  "sorted_wrt (\<lambda>a b. jt_count b \<le> jt_count a) (sort_key (\<lambda>r. - jt_count r) rows)"
proof -
  have "sorted (map (\<lambda>r. - jt_count r) (sort_key (\<lambda>r. - jt_count r) rows))"
    by (rule sorted_sort_key)
  then show ?thesis
    by (simp add: sorted_map)
qed

lemma sortedJobTypes_descending:
  "sorted_wrt (\<lambda>a b. jt_count b \<le> jt_count a) (sortedJobTypes fmt stats)"
  unfolding sortedJobTypes_def by (rule sort_key_descending)

lemma sortedJobTypes_mset: "mset (sortedJobTypes fmt stats) = mset (jobTypeRows fmt stats)"
  by (simp add: sortedJobTypes_def)

lemma sortedJobTypes_length:
  "length (sortedJobTypes fmt stats) = length (jobTypeEntries stats)"
  by (simp add: sortedJobTypes_def jobTypeRows_def)

text \<open>The rows are split into the five kept and the rest, none lost and none repeated.\<close>

lemma topJobTypes_split:
  "mset (topJobTypes fmt stats) + mset (drop 5 (sortedJobTypes fmt stats)) =
   mset (jobTypeRows fmt stats)"
proof -
  have "mset (take 5 (sortedJobTypes fmt stats)) + mset (drop 5 (sortedJobTypes fmt stats)) =
        mset (take 5 (sortedJobTypes fmt stats) @ drop 5 (sortedJobTypes fmt stats))"
    by (simp only: mset_append)
  also have "\<dots> = mset (sortedJobTypes fmt stats)"
    by (simp only: append_take_drop_id)
  also have "\<dots> = mset (jobTypeRows fmt stats)"
    by (rule sortedJobTypes_mset)
  finally show ?thesis
    by (simp only: topJobTypes_def)
qed

lemma topJobTypes_rest:
  "mset (jobTypeRows fmt stats) - mset (topJobTypes fmt stats) =
   mset (drop 5 (sortedJobTypes fmt stats))"
  by (simp add: topJobTypes_split [symmetric])

lemma topJobTypes_cross:
  "\<forall>r \<in> set (topJobTypes fmt stats).
     \<forall>q \<in> set (drop 5 (sortedJobTypes fmt stats)). jt_count q \<le> jt_count r"
proof -
  have "sorted_wrt (\<lambda>a b. jt_count b \<le> jt_count a)
          (take 5 (sortedJobTypes fmt stats) @ drop 5 (sortedJobTypes fmt stats))"
    using sortedJobTypes_descending [of fmt stats] by simp
  then show ?thesis
    unfolding sorted_wrt_append topJobTypes_def by blast
qed

text \<open>
  C10: for every statistics response, the list of top job types has min(5, number of
  job types) rows; it is a selection of the rows of the job types, no row taken more
  often than it occurs; its rows are in nonincreasing order of count; and the count of
  every row of the list is at least the count of every row that is left out, so that the
  list holds the 5 largest job types.
\<close>

theorem topJobTypes_largest:
  "length (topJobTypes fmt stats) = min 5 (length (jobTypeEntries stats)) \<and>
   mset (topJobTypes fmt stats) \<subseteq># mset (jobTypeRows fmt stats) \<and>
   sorted_wrt (\<lambda>a b. jt_count b \<le> jt_count a) (topJobTypes fmt stats) \<and>
   (\<forall>q \<in># mset (jobTypeRows fmt stats) - mset (topJobTypes fmt stats).
      \<forall>r \<in> set (topJobTypes fmt stats). jt_count q \<le> jt_count r) \<and>
   (\<forall>e \<in> set (jobTypeEntries stats).
      jobTypeRow fmt (totalJobs stats) e \<notin> set (topJobTypes fmt stats) \<longrightarrow>
      (\<forall>r \<in> set (topJobTypes fmt stats). snd e \<le> jt_count r))"
proof (intro conjI)
  show "length (topJobTypes fmt stats) = min 5 (length (jobTypeEntries stats))"
    by (simp add: topJobTypes_def sortedJobTypes_length min.commute)
  show "mset (topJobTypes fmt stats) \<subseteq># mset (jobTypeRows fmt stats)"
    unfolding topJobTypes_split [symmetric] by simp
  show "sorted_wrt (\<lambda>a b. jt_count b \<le> jt_count a) (topJobTypes fmt stats)"
    unfolding topJobTypes_def
    using sortedJobTypes_descending [of fmt stats] by (rule sorted_wrt_take)
  show rest: "\<forall>q \<in># mset (jobTypeRows fmt stats) - mset (topJobTypes fmt stats).
      \<forall>r \<in> set (topJobTypes fmt stats). jt_count q \<le> jt_count r"
    unfolding topJobTypes_rest using topJobTypes_cross [of fmt stats] by auto
  show "\<forall>e \<in> set (jobTypeEntries stats).
      jobTypeRow fmt (totalJobs stats) e \<notin> set (topJobTypes fmt stats) \<longrightarrow>
      (\<forall>r \<in> set (topJobTypes fmt stats). snd e \<le> jt_count r)"
  proof (intro ballI impI)
    fix e r
    assume e: "e \<in> set (jobTypeEntries stats)"
      and out: "jobTypeRow fmt (totalJobs stats) e \<notin> set (topJobTypes fmt stats)"
      and r: "r \<in> set (topJobTypes fmt stats)"
    from e have "jobTypeRow fmt (totalJobs stats) e \<in># mset (jobTypeRows fmt stats)"
      by (simp add: jobTypeRows_def)
    then have "jobTypeRow fmt (totalJobs stats) e
                 \<in># mset (topJobTypes fmt stats) + mset (drop 5 (sortedJobTypes fmt stats))"
      by (simp only: topJobTypes_split)
    with out have "jobTypeRow fmt (totalJobs stats) e \<in> set (drop 5 (sortedJobTypes fmt stats))"
      by simp
    with topJobTypes_cross [of fmt stats] r
    have "jt_count (jobTypeRow fmt (totalJobs stats) e) \<le> jt_count r"
      by blast
    then show "snd e \<le> jt_count r"
      by (simp add: jobTypeRow_def)
  qed
qed

lemma example_stats_top:
  "topJobTypes exact_tenths example_stats =
     [\<lparr>jt_type = ''ML TRAINING'', jt_count = 6, jt_percent = ''28.6''\<rparr>,
      \<lparr>jt_type = ''STREAMING'', jt_count = 6, jt_percent = ''28.6''\<rparr>,
      \<lparr>jt_type = ''ETL'', jt_count = 3, jt_percent = ''14.3''\<rparr>,
      \<lparr>jt_type = ''DATA QUALITY'', jt_count = 3, jt_percent = ''14.3''\<rparr>,
      \<lparr>jt_type = ''REPORTING'', jt_count = 2, jt_percent = ''9.5''\<rparr>]"
  by code_simp

lemma example_stats_analytics:
  "(''ANALYTICS'', 1) \<in> set (jobTypeEntries example_stats) \<and>
   jobTypeRow exact_tenths (totalJobs example_stats) (''ANALYTICS'', 1) =
     \<lparr>jt_type = ''ANALYTICS'', jt_count = 1, jt_percent = ''4.8''\<rparr>"
  by code_simp

text \<open>
  Witness for C10: of the six job types of the example, ANALYTICS with count 1 is the
  one left out; the list has five rows, all among the rows of the job types, and every
  one of them has a count of at least 1.
\<close>

theorem topJobTypes_largest_witness:
  "(''ANALYTICS'', 1) \<in> set (jobTypeEntries example_stats) \<and>
   jobTypeRow exact_tenths (totalJobs example_stats) (''ANALYTICS'', 1)
     \<notin> set (topJobTypes exact_tenths example_stats) \<and>
   length (topJobTypes exact_tenths example_stats) = 5 \<and>
   mset (topJobTypes exact_tenths example_stats) \<subseteq># mset (jobTypeRows exact_tenths example_stats) \<and>
   list_all (\<lambda>r. 1 \<le> jt_count r) (topJobTypes exact_tenths example_stats)"
proof -
  note facts = topJobTypes_largest [of exact_tenths example_stats]
  have inside: "(''ANALYTICS'', 1) \<in> set (jobTypeEntries example_stats)"
    using example_stats_analytics by blast
  have out: "jobTypeRow exact_tenths (totalJobs example_stats) (''ANALYTICS'', 1)
               \<notin> set (topJobTypes exact_tenths example_stats)"
    using example_stats_analytics by (simp add: example_stats_top)
  have "length (jobTypeEntries example_stats) = 6"
    by (simp add: jobTypeEntries_def example_stats_def)
  with facts have len: "length (topJobTypes exact_tenths example_stats) = 5"
    by simp
  from facts
  have sub: "mset (topJobTypes exact_tenths example_stats)
               \<subseteq># mset (jobTypeRows exact_tenths example_stats)"
    by blast
  from facts inside out
  have "\<forall>r \<in> set (topJobTypes exact_tenths example_stats).
          snd (''ANALYTICS'', 1::int) \<le> jt_count r"
    by blast
  then have "list_all (\<lambda>r. 1 \<le> jt_count r) (topJobTypes exact_tenths example_stats)"
    by (simp add: list_all_iff)
  with inside out len sub show ?thesis
    by blast
qed

section \<open>Paging in the Jobs view\<close>

lemma page_size_positive: "n \<in> set pageSizeOptions \<Longrightarrow> 0 < n"
  by (auto simp: pageSizeOptions_def)

text \<open>The render and the arrival of an answer leave the four cells as they are.\<close>

lemma handle_cells:
  "jobPage (handle e v) = jobPage (set_cells e v)"
  "jobPageSize (handle e v) = jobPageSize (set_cells e v)"
  "jobStatusFilter (handle e v) = jobStatusFilter (set_cells e v)"
  "jobTypeFilter (handle e v) = jobTypeFilter (set_cells e v)"
  by (simp_all add: handle_def useJobs_render_def Let_def)

lemma jobs_answer_cells:
  "jobPage (jobs_answer srv k v) = jobPage v"
  "jobPageSize (jobs_answer srv k v) = jobPageSize v"
  "jobStatusFilter (jobs_answer srv k v) = jobStatusFilter v"
  "jobTypeFilter (jobs_answer srv k v) = jobTypeFilter v"
  by (simp_all add: jobs_answer_def Let_def)

lemma reachable_page_size: "reachable srv v \<Longrightarrow> jobPageSize v \<in> set pageSizeOptions"
proof (induction rule: reachable.induct)
  case start
  show ?case by (simp add: initial_view_def pageSizeOptions_def)
next
  case (control v e)
  then show ?case by (cases e) (simp_all add: handle_cells)
next
  case (jobs_arrive v k)
  then show ?case by (simp add: jobs_answer_cells)
next
  case (job_types_arrive v)
  then show ?case by simp
qed

lemma reachable_page_nonneg: "reachable srv v \<Longrightarrow> 0 \<le> jobPage v"
proof (induction rule: reachable.induct)
  case start
  show ?case by (simp add: initial_view_def)
next
  case (control v e)
  then show ?case by (cases e) (simp_all add: handle_cells canPrev_def)
next
  case (jobs_arrive v k)
  then show ?case by (simp add: jobs_answer_cells)
next
  case (job_types_arrive v)
  then show ?case by simp
qed

text \<open>With a positive page size the number of pages is finite: the ceiling of the quotient.\<close>

lemma totalPages_finite:
  "0 < jobPageSize v \<Longrightarrow>
   totalPages v = num \<lceil>rat_of_int (jobsTotal v) / rat_of_int (jobPageSize v)\<rceil>"
  by (simp add: totalPages_def num_def)

lemma of_int_less_pred: "(rat_of_int a < rat_of_int c - 1) = (a < c - 1)"
proof -
  have pred: "rat_of_int c - 1 = rat_of_int (c - 1)"
    by simp
  show ?thesis
    unfolding pred by (rule of_int_less_iff)
qed

lemma canNext_finite:
  "0 < jobPageSize v \<Longrightarrow>
   canNext v = (jobPage v < \<lceil>rat_of_int (jobsTotal v) / rat_of_int (jobPageSize v)\<rceil> - 1)"
  by (simp add: canNext_def totalPages_finite num_def of_int_less_pred)

lemma loaded_view_reachable: "reachable example_server loaded_view"
proof -
  have "Jobs_query initial_view \<in> set (jobsRequested initial_view)"
    by (simp add: Jobs_query_def initial_view_def)
  with reachable.start show ?thesis
    unfolding loaded_view_def by (rule reachable.jobs_arrive)
qed

lemma loaded_view_shown:
  "jobPage loaded_view = 0 \<and> jobPageSize loaded_view = 20 \<and> jobsTotal loaded_view = 100"
  by (simp add: loaded_view_def jobs_answer_def Let_def jobsTotal_def initial_view_def
      example_server_def useJobs_params_def Jobs_query_def passes_filter_def)

lemma filtered_view_shown:
  "jobStatusFilter filtered_view = ''FAILED'' \<and> jobPage filtered_view = 1 \<and>
   jobPageSize filtered_view = 20 \<and> jobsTotal filtered_view = 100"
  by (simp add: filtered_view_def handle_def useJobs_render_def loaded_view_def jobs_answer_def
      Let_def jobsTotal_def initial_view_def example_server_def useJobs_params_def
      Jobs_query_def passes_filter_def)

lemma filtered_view_reachable: "reachable example_server filtered_view"
proof -
  let ?failed = "handle (StatusChange ''FAILED'') loaded_view"
  have "offered (StatusChange ''FAILED'') loaded_view"
    by (simp add: statusOptions_def)
  with loaded_view_reachable have failed: "reachable example_server ?failed"
    by (rule reachable.control)
  have "jobPage ?failed = 0 \<and> jobPageSize ?failed = 20 \<and> jobsTotal ?failed = 100"
    by (simp add: handle_def useJobs_render_def loaded_view_def jobs_answer_def
        Let_def jobsTotal_def initial_view_def example_server_def useJobs_params_def
        Jobs_query_def passes_filter_def)
  then have "offered NextClick ?failed"
    by (simp add: canNext_finite)
  with failed show ?thesis
    unfolding filtered_view_def by (rule reachable.control)
qed

text \<open>
  Counterexample for C9: a reachable state whose page index is neither below the number
  of pages nor zero. With the example server the view loads 100 jobs (5 pages of 20); the
  status filter is set to FAILED, which resets the page index to 0 while the list for all
  statuses is still shown; Next is enabled and is clicked; then the answer for the FAILED
  jobs arrives with a total of 10, which is one page, and the page index is 1.
\<close>

theorem page_out_of_range_reachable:
  "reachable example_server stale_view \<and>
   jobPage stale_view = 1 \<and> jobPageSize stale_view = 20 \<and> jobsTotal stale_view = 10 \<and>
   \<not> page_in_range stale_view"
proof -
  have "Jobs_query filtered_view \<in> set (jobsRequested filtered_view)"
    by (simp add: filtered_view_def handle_def useJobs_render_def Let_def Jobs_query_def)
  with filtered_view_reachable have reach: "reachable example_server stale_view"
    unfolding stale_view_def by (rule reachable.jobs_arrive)
  have "useJobs_params (Jobs_query filtered_view) =
          [(''limit'', PNum 20), (''offset'', PNum 20), (''status'', PStr ''FAILED'')]"
    using filtered_view_shown
    by (simp add: useJobs_params_def Jobs_query_def passes_filter_def filtered_view_def
        handle_def useJobs_render_def Let_def loaded_view_def jobs_answer_def initial_view_def)
  then have total: "jobsTotal stale_view = 10"
    by (simp add: stale_view_def jobs_answer_def Let_def jobsTotal_def example_server_def)
  have cells: "jobPage stale_view = 1 \<and> jobPageSize stale_view = 20"
    using filtered_view_shown by (simp add: stale_view_def jobs_answer_cells)
  with total have "\<not> page_in_range stale_view"
    by (simp add: page_in_range_def totalPages_def num_def)
  with reach cells total show ?thesis
    by blast
qed

text \<open>
  C9, amended: in every reachable state of the Jobs view the page index is at least 0
  and the page size is one of 10, 20, 50 and 100; Prev is enabled exactly when the page
  index is above 0 and Next exactly when the page index is below
  ceil(total / page size) - 1, for the total shown in that state; a click on Next
  therefore leads to a page index below ceil(total / page size) for the total shown
  when it was clicked, and a click on Prev to a page index of at least 0; every change
  of the status filter, of the job-type filter or of the page size sets the page index
  to 0. That the page index is below ceil(total / page size) or is 0 is not claimed of
  the reachable states: the total shown changes with the data the query hands over.
\<close>

theorem Jobs_paging:
  assumes "reachable srv v"
  shows "0 \<le> jobPage v \<and>
         jobPageSize v \<in> set pageSizeOptions \<and>
         (offered PrevClick v \<longleftrightarrow> 0 < jobPage v) \<and>
         (offered NextClick v \<longleftrightarrow>
            jobPage v < \<lceil>rat_of_int (jobsTotal v) / rat_of_int (jobPageSize v)\<rceil> - 1) \<and>
         (offered NextClick v \<longrightarrow>
            jobPage (handle NextClick v) = jobPage v + 1 \<and>
            jobPage (handle NextClick v)
              < \<lceil>rat_of_int (jobsTotal v) / rat_of_int (jobPageSize v)\<rceil>) \<and>
         (offered PrevClick v \<longrightarrow>
            jobPage (handle PrevClick v) = jobPage v - 1 \<and> 0 \<le> jobPage (handle PrevClick v)) \<and>
         jobPage (handle (StatusChange x) v) = 0 \<and>
         jobPage (handle (JobTypeChange t) v) = 0 \<and>
         jobPage (handle (PageSizeChange n) v) = 0"
proof -
  from assms have size: "0 < jobPageSize v"
    by (intro page_size_positive reachable_page_size)
  show ?thesis
    using assms size
    by (simp add: reachable_page_nonneg reachable_page_size canPrev_def canNext_finite
        handle_cells)
qed

text \<open>
  Witness for C9: the view that shows the first 20 of 100 jobs is reachable; its page
  index is 0, Prev is disabled, Next is enabled, and a click on Next leads to page
  index 1, which is below the 5 pages shown.
\<close>

theorem Jobs_paging_witness:
  "reachable example_server loaded_view \<and>
   jobPage loaded_view = 0 \<and>
   \<not> offered PrevClick loaded_view \<and>
   offered NextClick loaded_view \<and>
   jobPage (handle NextClick loaded_view) = 1 \<and>
   jobPage (handle NextClick loaded_view)
     < \<lceil>rat_of_int (jobsTotal loaded_view) / rat_of_int (jobPageSize loaded_view)\<rceil>"
proof -
  note facts = Jobs_paging [OF loaded_view_reachable, of "[]" "[]" 0]
  from facts have prev: "\<not> offered PrevClick loaded_view"
    using loaded_view_shown by simp
  from facts have nxt: "offered NextClick loaded_view"
    using loaded_view_shown by simp
  from facts nxt have step: "jobPage (handle NextClick loaded_view) = jobPage loaded_view + 1"
    and below: "jobPage (handle NextClick loaded_view)
                  < \<lceil>rat_of_int (jobsTotal loaded_view) / rat_of_int (jobPageSize loaded_view)\<rceil>"
    by blast+
  from step have "jobPage (handle NextClick loaded_view) = 1"
    using loaded_view_shown by simp
  with loaded_view_reachable loaded_view_shown prev nxt below show ?thesis
    by blast
qed

section \<open>The refresh button\<close>

text \<open>
  C7: a click on the refresh button sends at most one request, the GET of \<open>/stats\<close>
  without parameters that the statistics query always sends (none while a fetch is under
  way, when the button is disabled); that request is not a write and does not address
  the \<open>/refresh\<close> endpoint; the cached statistics are left as they are until the answer
  arrives.
\<close>

theorem refresh_only_reads:
  "sent (refresh_click w) = (if isFetching w then sent w else sent w @ [useStats_request]) \<and>
   stats_data (refresh_click w) = stats_data w \<and>
   req_method useStats_request = GET \<and>
   req_url useStats_request = baseURL @ ''/stats'' \<and>
   req_url useStats_request \<noteq> baseURL @ ''/refresh'' \<and>
   req_params useStats_request = []"
  by (simp add: refresh_click_def refetch_def useStats_request_def client_get_def)

section \<open>The job statuses\<close>

text \<open>
  Counterexample for C1: RUNNING, which is neither COMPLETED nor FAILED, is one of the
  options of the status filter, has an icon of its own, and is sent as the \<open>status\<close>
  parameter of the jobs request once it is selected.
\<close>

theorem RUNNING_in_status_domain:
  "''RUNNING'' \<in> set statusOptions \<and>
   ''RUNNING'' \<notin> {''COMPLETED'', ''FAILED''} \<and>
   statusIcon ''RUNNING'' = (PlayCircle, ''w-4 h-4 text-yellow-600'') \<and>
   map_of (useJobs_params (Jobs_query (handle (StatusChange ''RUNNING'') initial_view)))
     ''status'' = Some (PStr ''RUNNING'')"
  by (simp add: statusOptions_def statusIcon_def useJobs_params_def Jobs_query_def
      passes_filter_def initial_view_def handle_def useJobs_render_def)

text \<open>
  C1, amended: every job record that the generator produces has the status COMPLETED or
  FAILED, FAILED exactly when its failure draw succeeded. The job-status domain of the
  consumer is COMPLETED, FAILED and RUNNING: besides "ALL" the status filter offers
  exactly these three; the status icon and the status colour are other than the default
  exactly for these three; and the status chart of the Dashboard has the three bars
  Completed, Running and Failed.
\<close>

theorem job_status_domains:
  "status_name (gj_status j) \<in> {''COMPLETED'', ''FAILED''} \<and>
   status_name (gj_status (synthesize_job jid category failure_draw)) =
     (if failure_draw then ''FAILED'' else ''COMPLETED'') \<and>
   set statusOptions - {''ALL''} = {''COMPLETED'', ''FAILED'', ''RUNNING''} \<and>
   (fst (statusIcon s) \<noteq> Info \<longleftrightarrow> s \<in> {''COMPLETED'', ''FAILED'', ''RUNNING''}) \<and>
   (statusColor s \<noteq> ''text-gray-700'' \<longleftrightarrow> s \<in> {''COMPLETED'', ''FAILED'', ''RUNNING''}) \<and>
   map fst (statusData stats) = [''Completed'', ''Running'', ''Failed'']"
proof (intro conjI)
  show "status_name (gj_status j) \<in> {''COMPLETED'', ''FAILED''}"
    by (cases "gj_status j") simp_all
  show "status_name (gj_status (synthesize_job jid category failure_draw)) =
     (if failure_draw then ''FAILED'' else ''COMPLETED'')"
    by (simp add: synthesize_job_def)
  show "set statusOptions - {''ALL''} = {''COMPLETED'', ''FAILED'', ''RUNNING''}"
    by (auto simp: statusOptions_def)
  show "fst (statusIcon s) \<noteq> Info \<longleftrightarrow> s \<in> {''COMPLETED'', ''FAILED'', ''RUNNING''}"
    by (simp add: statusIcon_def)
  show "statusColor s \<noteq> ''text-gray-700'' \<longleftrightarrow> s \<in> {''COMPLETED'', ''FAILED'', ''RUNNING''}"
    by (simp add: statusColor_def)
  show "map fst (statusData stats) = [''Completed'', ''Running'', ''Failed'']"
    by (simp add: statusData_def)
qed

section \<open>The percentage of a job type\<close>

lemma percent_of_finite: "t \<noteq> 0 \<Longrightarrow> percent_of c t = Fin (of_int c / of_int t * 100)"
  by (simp add: percent_of_def num_def)

text \<open>
  C3: for a statistics response with \<open>total_jobs = 0\<close> that lists the job type ETL with
  count 0, the Dashboard computes the percentage as 0 / 0 and the row shows "NaN",
  whatever the runtime prints for finite values.
\<close>

theorem percent_of_empty_corpus_is_NaN:
  "topJobTypes fmt empty_corpus_stats =
     [\<lparr>jt_type = ''ETL'', jt_count = 0, jt_percent = ''NaN''\<rparr>]"
  by (simp add: topJobTypes_def sortedJobTypes_def jobTypeRows_def jobTypeEntries_def
      totalJobs_def empty_corpus_stats_def jobTypeRow_def percent_of_def num_def
      replace_underscores_def)

section \<open>The fields of the consumer's Job\<close>

text \<open>
  Counterexample for C6: the consumer's \<open>Job\<close> has the property \<open>num_stages\<close>, and no
  attribute of the data model is a number of stages.
\<close>

theorem Job_has_field_outside_data_model:
  "''num_stages'' \<in> set Job_fields \<and> attribute_of_field ''num_stages'' = None"
  by (simp add: Job_fields_def attribute_of_field_def)

lemma Job_fields_attributes:
  "List.map_filter attribute_of_field Job_fields =
     [Identifier, Name, Category, Status, StartTimestamp, EndTimestamp, DurationSeconds,
      ExecutorCount, InputSize, OutputSize, MemoryPerExecutor, TotalMemory, CpuPerExecutor,
      ShuffleRead, ShuffleWrite, GcTime]"
  by (simp add: Job_fields_def attribute_of_field_def List.map_filter_def)

text \<open>
  C6, amended: the consumer's \<open>Job\<close> carries every Job attribute that the data model
  lists, each in exactly one property, and has three more properties that the data model
  does not list: \<open>num_stages\<close>, \<open>num_tasks\<close> and \<open>duration_formatted\<close>.
\<close>

theorem Job_covers_data_model:
  "set (List.map_filter attribute_of_field Job_fields) = set data_model_job_attributes \<and>
   distinct (List.map_filter attribute_of_field Job_fields) \<and>
   distinct Job_fields \<and>
   filter (\<lambda>f. attribute_of_field f = None) Job_fields =
     [''num_stages'', ''num_tasks'', ''duration_formatted'']"
proof (intro conjI)
  show "set (List.map_filter attribute_of_field Job_fields) = set data_model_job_attributes"
    unfolding Job_fields_attributes data_model_job_attributes_def by auto
  show "distinct (List.map_filter attribute_of_field Job_fields)"
    unfolding Job_fields_attributes by simp
  show "distinct Job_fields"
    by (simp add: Job_fields_def)
  show "filter (\<lambda>f. attribute_of_field f = None) Job_fields =
     [''num_stages'', ''num_tasks'', ''duration_formatted'']"
    by (simp add: Job_fields_def attribute_of_field_def)
qed

section \<open>Operator statuses of a generated job\<close>

lemma filter_eq_upt: "fp < n \<Longrightarrow> filter (\<lambda>i. i = fp) [0..<n] = [fp]"
proof (induction n)
  case 0
  then show ?case by simp
next
  case (Suc n)
  show ?case
  proof (cases "fp = n")
    case True
    have "filter (\<lambda>i. i = n) [0..<n] = []"
      by (simp add: filter_empty_conv)
    with True show ?thesis by simp
  next
    case False
    with Suc show ?thesis by simp
  qed
qed

lemma synthesize_operator_fields:
  "op_sequence (synthesize_operator js fp dur recs i name) = i"
  "op_status (synthesize_operator js fp dur recs i name) = operator_status_at js fp i"
  by (simp_all add: synthesize_operator_def Let_def)

lemma failed_positions:
  "filter (\<lambda>x. op_status x = OpFailed) (synthesize_operators JobFailed stages fp dur recs) =
   map (\<lambda>i. synthesize_operator JobFailed fp dur recs i (stages ! i))
     (filter (\<lambda>i. i = fp) [0..<length stages])"
proof -
  have "(\<lambda>i. op_status (synthesize_operator JobFailed fp dur recs i (stages ! i)) = OpFailed) =
        (\<lambda>i. i = fp)"
    by (auto simp: synthesize_operator_fields operator_status_at_def fun_eq_iff)
  then show ?thesis
    by (simp add: synthesize_operators_def filter_map comp_def)
qed

text \<open>
  C2: the operators of a job have the sequence positions 0..n-1. When the job is FAILED
  and the failure point is one of the stage positions, exactly one operator is FAILED,
  the one at the failure point; every operator at a later position is SKIPPED and every
  operator at an earlier position is COMPLETED. When the job is COMPLETED, every
  operator is COMPLETED.
\<close>

theorem failed_job_operator_pattern:
  assumes "fp < length stages"
  shows "length (synthesize_operators js stages fp dur recs) = length stages \<and>
         (\<forall>i < length stages. op_sequence (synthesize_operators js stages fp dur recs ! i) = i) \<and>
         length (filter (\<lambda>x. op_status x = OpFailed)
                  (synthesize_operators JobFailed stages fp dur recs)) = 1 \<and>
         op_status (synthesize_operators JobFailed stages fp dur recs ! fp) = OpFailed \<and>
         (\<forall>x \<in> set (synthesize_operators JobFailed stages fp dur recs).
            fp < op_sequence x \<longrightarrow> op_status x = OpSkipped) \<and>
         (\<forall>x \<in> set (synthesize_operators JobFailed stages fp dur recs).
            op_sequence x < fp \<longrightarrow> op_status x = OpCompleted) \<and>
         (\<forall>x \<in> set (synthesize_operators JobCompleted stages fp dur recs).
            op_status x = OpCompleted)"
proof (intro conjI)
  show "length (synthesize_operators js stages fp dur recs) = length stages"
    by (simp add: synthesize_operators_def)
  show "\<forall>i < length stages. op_sequence (synthesize_operators js stages fp dur recs ! i) = i"
    by (simp add: synthesize_operators_def synthesize_operator_fields)
  show "length (filter (\<lambda>x. op_status x = OpFailed)
          (synthesize_operators JobFailed stages fp dur recs)) = 1"
    using assms by (simp add: failed_positions filter_eq_upt)
  show "op_status (synthesize_operators JobFailed stages fp dur recs ! fp) = OpFailed"
    using assms
    by (simp add: synthesize_operators_def synthesize_operator_fields operator_status_at_def)
  show "\<forall>x \<in> set (synthesize_operators JobFailed stages fp dur recs).
          fp < op_sequence x \<longrightarrow> op_status x = OpSkipped"
    by (auto simp: synthesize_operators_def synthesize_operator_fields operator_status_at_def)
  show "\<forall>x \<in> set (synthesize_operators JobFailed stages fp dur recs).
          op_sequence x < fp \<longrightarrow> op_status x = OpCompleted"
    by (auto simp: synthesize_operators_def synthesize_operator_fields operator_status_at_def)
  show "\<forall>x \<in> set (synthesize_operators JobCompleted stages fp dur recs).
          op_status x = OpCompleted"
    by (auto simp: synthesize_operators_def synthesize_operator_fields operator_status_at_def)
qed

text \<open>
  Witness for C2: a FAILED job with a pipeline of four stages and the failure point at
  position 1 has the statuses COMPLETED, FAILED, SKIPPED, SKIPPED.
\<close>

theorem failed_job_operator_pattern_witness:
  "(1::nat) < length [''read'', ''join'', ''aggregate'', ''write''] \<and>
   map op_status
     (synthesize_operators JobFailed [''read'', ''join'', ''aggregate'', ''write''] 1
        (\<lambda>_. 5) (\<lambda>_. 7)) = [OpCompleted, OpFailed, OpSkipped, OpSkipped] \<and>
   length (filter (\<lambda>x. op_status x = OpFailed)
     (synthesize_operators JobFailed [''read'', ''join'', ''aggregate'', ''write''] 1
        (\<lambda>_. 5) (\<lambda>_. 7))) = 1"
proof -
  have len: "(1::nat) < length [''read'', ''join'', ''aggregate'', ''write'']"
    by simp
  have "[0..<length [''read'', ''join'', ''aggregate'', ''write'']] = [0, 1, 2, 3]"
    by (simp add: upt_rec)
  then have "map op_status
     (synthesize_operators JobFailed [''read'', ''join'', ''aggregate'', ''write''] 1
        (\<lambda>_. 5) (\<lambda>_. 7)) = [OpCompleted, OpFailed, OpSkipped, OpSkipped]"
    by (simp add: synthesize_operators_def synthesize_operator_fields operator_status_at_def)
  with len failed_job_operator_pattern [OF len, of JobFailed "\<lambda>_. 5" "\<lambda>_. 7"]
  show ?thesis by blast
qed

section \<open>The summary statistics\<close>

lemma status_partition:
  "length (filter (\<lambda>j. gj_status j = JobCompleted) js) +
   length (filter (\<lambda>j. gj_status j = JobFailed) js) = length js"
proof (induction js)
  case Nil
  show ?case by simp
next
  case (Cons j js)
  then show ?case by (cases "gj_status j") simp_all
qed

text \<open>
  C4: for every corpus of jobs, the total of the summary is the number of jobs, the
  completed and the failed jobs add up to the total, and the success rate is the
  completed jobs over the total, or 0 when the total is 0.
\<close>

theorem aggregate_counts:
  "s_total_jobs (aggregate js) = length js \<and>
   s_completed_jobs (aggregate js) + s_failed_jobs (aggregate js) = s_total_jobs (aggregate js) \<and>
   s_success_rate (aggregate js) =
     (if s_total_jobs (aggregate js) = 0 then 0
      else of_nat (s_completed_jobs (aggregate js)) / of_nat (s_total_jobs (aggregate js)))"
  using status_partition [of js] by (simp add: aggregate_def Let_def)

end
